theory Spec2Isabelle
  imports Main
begin

section \<open>Strings\<close>

text \<open>
  A Python \<open>str\<close> is a sequence of code points and \<open>len\<close> counts them. It is modelled
  as a \<open>string\<close>, one \<open>char\<close> per code point, which covers the code points below 256
  (ASCII and Latin-1); \<open>length\<close> is then Python's \<open>len\<close>.
\<close>

definition newline :: char where
  "newline = CHR 0x0A"

text \<open>\<open>s.split("\n")\<close>: the pieces of \<open>s\<close> between newlines; never an empty list.\<close>

fun str_split :: "string \<Rightarrow> string list" where
  "str_split [] = [[]]"
| "str_split (c # cs) =
     (if c = newline then [] # str_split cs
      else (case str_split cs of
              [] \<Rightarrow> [[c]]
            | l # ls \<Rightarrow> (c # l) # ls))"

text \<open>\<open>sep.join(xs)\<close>.\<close>

fun str_join :: "string \<Rightarrow> string list \<Rightarrow> string" where
  "str_join sep [] = []"
| "str_join sep [x] = x"
| "str_join sep (x # y # ys) = x @ sep @ str_join sep (y # ys)"

text \<open>\<open>s.startswith(p)\<close> and the substring test \<open>n in s\<close>.\<close>

fun starts_with :: "string \<Rightarrow> string \<Rightarrow> bool" where
  "starts_with s [] = True"
| "starts_with [] (p # ps) = False"
| "starts_with (c # cs) (p # ps) = (c = p \<and> starts_with cs ps)"

fun str_in :: "string \<Rightarrow> string \<Rightarrow> bool" where
  "str_in n [] = (n = [])"
| "str_in n (c # cs) = (starts_with (c # cs) n \<or> str_in n cs)"

text \<open>
  \<open>s.lower()\<close> on the code points below 256: the letters A to Z and the Latin-1 capitals
  0xC0 to 0xDE, the multiplication sign 0xD7 apart, move up by 32; every other code point
  stays.
\<close>

definition lower_char :: "char \<Rightarrow> char" where
  "lower_char c =
     (let n = (of_char c :: nat)
      in if (65 \<le> n \<and> n \<le> 90) \<or> (192 \<le> n \<and> n \<le> 222 \<and> n \<noteq> 215)
         then char_of (n + 32) else c)"

definition lower :: "string \<Rightarrow> string" where
  "lower s = map lower_char s"

section \<open>The slide deck\<close>

text \<open>
  A slide as \<open>add_content_to_slide\<close> leaves it: the layout it was made from, the text of
  the title placeholder (\<open>None\<close> when the code does not set it), the text of the paragraph
  added to the content placeholder, and that paragraph's font size in points. A
  presentation is the list of its slides, in order; the packaging library that holds it is
  outside the program and is taken to do what its calls ask.
\<close>

record slide =
  layout :: nat
  title :: "string option"
  body :: string
  word_wrap :: bool
  font_pt :: nat

type_synonym presentation = "slide list"

definition MAX_CHARS_PER_SLIDE :: nat where
  "MAX_CHARS_PER_SLIDE = 600"

definition add_content_to_slide ::
  "presentation \<Rightarrow> nat \<Rightarrow> string \<Rightarrow> string \<Rightarrow> bool \<Rightarrow> presentation" where
  "add_content_to_slide prs slide_layout ttl content is_first_slide =
     prs @ [\<lparr>layout = slide_layout,
              title = (if is_first_slide then Some ttl else None),
              body = content,
              word_wrap = True,
              font_pt = 20\<rparr>]"

text \<open>The slide made from layout 1 with the given title text and body.\<close>

definition slide_with :: "string option \<Rightarrow> string \<Rightarrow> slide" where
  "slide_with t b = \<lparr>layout = 1, title = t, body = b, word_wrap = True, font_pt = 20\<rparr>"

definition special_cases :: "string list" where
  "special_cases =
     [''summary'', ''question'', ''questions'', ''mcq'', ''fill in the blanks'',
      ''fill in the blank'', ''case study'', ''case studies'']"

text \<open>Lines 168 to 174 of \<open>add_slide_with_content\<close>: the title the slides are given.\<close>

definition rewrite_title :: "string \<Rightarrow> string" where
  "rewrite_title ttl =
     (if list_ex (\<lambda>c. str_in c (lower ttl)) special_cases then
        (if str_in ''summary'' (lower ttl) then ''Summary:''
         else if str_in ''case study'' (lower ttl) \<or> str_in ''case studies'' (lower ttl)
           then ''Case study:''
         else ''Q&A:'')
      else ttl)"

text \<open>
  The \<open>for paragraph in paragraphs\<close> loop of \<open>add_slide_with_content\<close>, over the state
  it updates: the presentation, \<open>current_content\<close> and \<open>first_slide\<close>. The budget is an
  argument, so that the loop can be run with another budget than the constant.
\<close>

fun for_paragraphs ::
  "nat \<Rightarrow> string \<Rightarrow> string list \<Rightarrow> presentation \<times> string \<times> bool
     \<Rightarrow> presentation \<times> string \<times> bool" where
  "for_paragraphs m ttl [] st = st"
| "for_paragraphs m ttl (paragraph # rest) (prs, current_content, first_slide) =
     (if length current_content + length paragraph > m
      then for_paragraphs m ttl rest
             (add_content_to_slide prs 1 ttl current_content first_slide, paragraph, False)
      else for_paragraphs m ttl rest
             (prs,
              (if current_content \<noteq> [] then current_content @ [newline]
               else current_content) @ paragraph,
              first_slide))"

definition add_slide_with_content_budget ::
  "nat \<Rightarrow> presentation \<Rightarrow> string \<Rightarrow> string \<Rightarrow> presentation" where
  "add_slide_with_content_budget m prs ttl content =
     (let ttl' = rewrite_title ttl;
          paragraphs = str_split content
      in case for_paragraphs m ttl' paragraphs (prs, [], True) of
           (prs', current_content, first_slide) \<Rightarrow>
             add_content_to_slide prs' 1 ttl' current_content first_slide)"

definition add_slide_with_content :: "presentation \<Rightarrow> string \<Rightarrow> string \<Rightarrow> presentation" where
  "add_slide_with_content prs ttl content =
     add_slide_with_content_budget MAX_CHARS_PER_SLIDE prs ttl content"

text \<open>
  \<open>update_presentation\<close>: the file at \<open>PPTX_FILE_PATH\<close> is \<open>None\<close> when it does not
  exist, and a new presentation has no slide.
\<close>

definition update_presentation ::
  "presentation option \<Rightarrow> string \<Rightarrow> string \<Rightarrow> presentation option" where
  "update_presentation file ttl content =
     (let prs = (case file of Some saved \<Rightarrow> saved | None \<Rightarrow> [])
      in Some (add_slide_with_content prs ttl content))"

text \<open>
  The contents the loop and the final call hand to \<open>add_content_to_slide\<close>, in order,
  as a function of the budget, \<open>current_content\<close> and the paragraphs still to come.
\<close>

fun flushed :: "nat \<Rightarrow> string \<Rightarrow> string list \<Rightarrow> string list" where
  "flushed m current_content [] = [current_content]"
| "flushed m current_content (paragraph # rest) =
     (if length current_content + length paragraph > m
      then current_content # flushed m paragraph rest
      else flushed m ((if current_content \<noteq> [] then current_content @ [newline]
                       else current_content) @ paragraph) rest)"

text \<open>The slides produced by one call: those past the slides the presentation had.\<close>

definition produced :: "presentation \<Rightarrow> string \<Rightarrow> string \<Rightarrow> slide list" where
  "produced prs ttl content = drop (length prs) (add_slide_with_content prs ttl content)"

definition produced_budget :: "nat \<Rightarrow> presentation \<Rightarrow> string \<Rightarrow> string \<Rightarrow> slide list" where
  "produced_budget m prs ttl content =
     drop (length prs) (add_slide_with_content_budget m prs ttl content)"

subsection \<open>The paginator as the specification words it\<close>

text \<open>
  A state machine over an accumulator \<open>current_content\<close> (initially empty), a
  \<open>first_slide\<close> flag (initially true) and the slides completed so far. For each line: if
  \<open>len(current_content) + len(line) > MAX_CHARS_PER_SLIDE\<close>, flush \<open>current_content\<close> as a
  completed slide, titled only if \<open>first_slide\<close> is true, clear the flag and start a new
  accumulator with just this line; otherwise append the line, joined by a newline if the
  accumulator is non-empty.
\<close>

record paginator =
  accumulator :: string
  first_flag :: bool
  completed :: "slide list"

definition spec_initial :: paginator where
  "spec_initial = \<lparr>accumulator = [], first_flag = True, completed = []\<rparr>"

definition spec_step :: "nat \<Rightarrow> string \<Rightarrow> paginator \<Rightarrow> string \<Rightarrow> paginator" where
  "spec_step m ttl p line =
     (if length (accumulator p) + length line > m
      then \<lparr>accumulator = line,
             first_flag = False,
             completed = completed p @
               [slide_with (if first_flag p then Some ttl else None) (accumulator p)]\<rparr>
      else p\<lparr>accumulator :=
               (if accumulator p = [] then line else accumulator p @ newline # line)\<rparr>)"

definition spec_run :: "nat \<Rightarrow> string \<Rightarrow> string list \<Rightarrow> paginator" where
  "spec_run m ttl lines = foldl (spec_step m ttl) spec_initial lines"

section \<open>The query pipeline\<close>

definition PROMPT_TEMPLATES :: "(string \<times> string) list" where
  "PROMPT_TEMPLATES =
     [(''rag'',
       ''\<newline>'' @
       ''    Answer the question based only on the following context:\<newline>'' @
       ''    {context}\<newline>'' @
       ''    ---\<newline>'' @
       ''    Answer the question based on the above context: {question}\<newline>'' @
       ''    ''),
      (''sum'',
       ''\<newline>'' @
       ''    Summarize the given topic based on the provided context. \<newline>'' @
       ''    The summary must be concise, clear, and must cover all points spec'' @
       ''ified by the user. \<newline>'' @
       ''    If a specific length is mentioned by the user, ensure the summary '' @
       ''adheres to that length. \<newline>'' @
       ''    If no length is specified, create a summary that is appropriate in'' @
       '' length for the given topic and provided context, without missing any '' @
       ''important details.\<newline>'' @
       ''    Context:\<newline>'' @
       ''    {context}\<newline>'' @
       ''    ---\<newline>'' @
       ''    Topic:\<newline>'' @
       ''    {question}\<newline>'' @
       ''    ''),
      (''qa'',
       ''\<newline>'' @
       ''    You are a question generating and answering model.\<newline>'' @
       ''    Generate questions for the user based on the given query and conte'' @
       ''xt, and generate appropriate answers for all the questions that you ge'' @
       ''nerate.\<newline>'' @
       ''    Generate questions and answers based on the type of question that '' @
       ''the user specifies.\<newline>'' @
       ''    The different types of questions can be:\<newline>'' @
       ''    - Multiple choice questions or MCQ (Default should be 4 choices fo'' @
       ''r each question, if not specified by the user. Mention the correct opt'' @
       ''ion by printing (Correct option:) at the end. By default, give 5 MCQs '' @
       ''if not explicitly specified by the user.),\<newline>'' @
       ''    - Fill in the blanks (where a blank is left in the sentence and th'' @
       ''e correct answer is present inside parentheses () at the end of the se'' @
       ''ntence. By default, give 5 fill in the blank questions if not explicit'' @
       ''ly specified by the user.),\<newline>'' @
       ''    - True or False questions (where the question statement is given a'' @
       ''nd the correct answer which is true or false, is given inside parenthe'' @
       ''ses () at the end of the sentence. By default, give 5 true or false qu'' @
       ''estions if not explicitly specified by the user.),\<newline>'' @
       ''    - Or it can be any other type of question that the user specifies.\<newline>'' @
       ''    Context:\<newline>'' @
       ''    {context}\<newline>'' @
       ''    ---\<newline>'' @
       ''    Query:\<newline>'' @
       ''    {question}\<newline>'' @
       ''    ''),
      (''case'',
       ''\<newline>'' @
       ''    You are a case study generation model.\<newline>'' @
       ''    Based on the given query and the corresponding provided context, c'' @
       ''reate a case study for the user.\<newline>'' @
       ''    The case study must take some example related to the topic and con'' @
       ''text and explain the concept to the user using that example. \<newline>'' @
       ''    The example can be based on real events or can be a made-up story.'' @
       '' \<newline>'' @
       ''    The case study must also have some conclusion at the end which exp'' @
       ''lains the need for the solution or the concept based on the given cont'' @
       ''ext.\<newline>'' @
       ''    Context:\<newline>'' @
       ''    {context}\<newline>'' @
       ''    ---\<newline>'' @
       ''    Query:\<newline>'' @
       ''    {question}\<newline>'' @
       ''    '')]"

text \<open>
  A retrieved document: its text and the \<open>id\<close> of its metadata, if it has one.
\<close>

record document =
  page_content :: string
  doc_id :: "string option"

datatype error = KeyError string

text \<open>
  What \<open>query_database\<close> changes: the presentation file, and the requests made to the
  vector store's similarity search, each with the query text and the \<open>k\<close> it asked for.
\<close>

record session =
  pptx_file :: "presentation option"
  searches :: "(string \<times> nat) list"

text \<open>
  The vector store's search, the template library's \<open>format\<close> and the language model's
  \<open>invoke\<close> are outside the program: they are arguments. A \<open>prompt_type\<close> that is not a
  key of \<open>PROMPT_TEMPLATES\<close> raises \<open>KeyError\<close>, after the search has been made.
\<close>

definition query_database ::
  "(string \<Rightarrow> nat \<Rightarrow> (document \<times> 'sc) list) \<Rightarrow> (string \<Rightarrow> string \<Rightarrow> string \<Rightarrow> string)
     \<Rightarrow> (string \<Rightarrow> string) \<Rightarrow> session \<Rightarrow> string \<Rightarrow> string \<Rightarrow> session \<times> (error + string)" where
  "query_database similarity_search_with_score format_prompt invoke s query_text prompt_type =
     (let results = similarity_search_with_score query_text 5;
          s1 = s\<lparr>searches := searches s @ [(query_text, 5)]\<rparr>;
          context_text =
            str_join ''\<newline>\<newline>---\<newline>\<newline>'' (map (\<lambda>(doc, score). page_content doc) results)
      in case map_of PROMPT_TEMPLATES prompt_type of
           None \<Rightarrow> (s1, Inl (KeyError prompt_type))
         | Some template \<Rightarrow>
             (let prompt = format_prompt template context_text query_text;
                  response_text = invoke prompt;
                  sources = map (\<lambda>(doc, score). doc_id doc) results
              in (s1\<lparr>pptx_file := update_presentation (pptx_file s1) query_text response_text\<rparr>,
                  Inr response_text)))"

text \<open>
  The session's deck after a sequence of answers, each a title and a content handed to
  \<open>update_presentation\<close>.
\<close>

definition update_all ::
  "presentation option \<Rightarrow> (string \<times> string) list \<Rightarrow> presentation option" where
  "update_all file answers = foldl (\<lambda>f (ttl, content). update_presentation f ttl content) file answers"

section \<open>The vector database\<close>

text \<open>
  \<open>load_documents\<close>, \<open>split_documents\<close>, \<open>add_to_chroma\<close> and \<open>delete_database\<close> are imported
  from \<open>populate_database\<close>, which is not among the source files. The loader and the
  splitter are arguments of the functions below.
\<close>

text \<open>
  Modelled from the spec: a chunk (section 3) as the identity assigner delivers it, with
  its id and its text; the type is declared in \<open>populate_database\<close>.
\<close>

record chunk =
  chunk_id :: string
  chunk_text :: string

text \<open>
  Modelled from the spec: the index store (section 6), an external service. It is the
  list of its entries by id, in insertion order, together with the calls made to it;
  \<open>upsert\<close> inserts an entry or replaces the one that has the id.
\<close>

datatype store_op = Exists_query | Upsert string | Delete "string list"

record 'v index_store =
  entries :: "(string \<times> 'v) list"
  calls :: "store_op list"

definition empty_store :: "'v index_store" where
  "empty_store = \<lparr>entries = [], calls = []\<rparr>"

fun upsert :: "string \<Rightarrow> 'v \<Rightarrow> (string \<times> 'v) list \<Rightarrow> (string \<times> 'v) list" where
  "upsert i v [] = [(i, v)]"
| "upsert i v ((j, w) # es) = (if i = j then (i, v) # es else (j, w) # upsert i v es)"

text \<open>
  Modelled from the spec: \<open>add_to_chroma\<close>, the specification's \<open>sync\<close> (section 4.3). It
  asks the store for the ids already present, takes the chunks whose id is not among them,
  and for each of these computes the embedding and upserts it; a chunk whose embedding
  fails is skipped (\<open>sync_chunk\<close> is the step for one chunk).
\<close>

definition sync_chunk :: "(string \<Rightarrow> 'v option) \<Rightarrow> 'v index_store \<Rightarrow> chunk \<Rightarrow> 'v index_store" where
  "sync_chunk embed_text st c =
     (case embed_text (chunk_text c) of
        None \<Rightarrow> st
      | Some v \<Rightarrow> st\<lparr>entries := upsert (chunk_id c) v (entries st),
                     calls := calls st @ [Upsert (chunk_id c)]\<rparr>)"

definition add_to_chroma ::
  "(string \<Rightarrow> 'v option) \<Rightarrow> chunk list \<Rightarrow> 'v index_store \<Rightarrow> 'v index_store" where
  "add_to_chroma embed_text chunks st =
     (let existing_ids = map fst (entries st);
          st1 = st\<lparr>calls := calls st @ [Exists_query]\<rparr>;
          new_chunks = filter (\<lambda>c. chunk_id c \<notin> set existing_ids) chunks
      in foldl (sync_chunk embed_text) st1 new_chunks)"

text \<open>
  Modelled from the spec: \<open>delete_database\<close>, the first half of the specification's
  \<open>reset\<close> (section 4.3), which deletes every id currently in the index store that matches
  the chunk id namespace of the given chunks. The ids the index store holds are chunk ids
  (section 3), so each of them is in that namespace, also the stale id of a chunk whose
  document was deleted, which \<open>reset\<close> is there to remove: the store is left without
  entries.
\<close>

definition delete_database :: "chunk list \<Rightarrow> 'v index_store \<Rightarrow> 'v index_store" where
  "delete_database chunks st =
     st\<lparr>entries := [], calls := calls st @ [Delete (map fst (entries st))]\<rparr>"

text \<open>
  \<open>update_vector_database\<close> and \<open>reset_vector_database\<close>, on the files of the data
  directory and the index store. The messages they show in the sidebar are left out.
\<close>

definition update_vector_database ::
  "('f \<Rightarrow> 'd list) \<Rightarrow> ('d list \<Rightarrow> chunk list) \<Rightarrow> (string \<Rightarrow> 'v option)
     \<Rightarrow> 'f \<Rightarrow> 'v index_store \<Rightarrow> 'v index_store" where
  "update_vector_database load_documents split_documents embed_text files st =
     (let documents = load_documents files;
          chunks = split_documents documents
      in add_to_chroma embed_text chunks st)"

definition reset_vector_database ::
  "('f \<Rightarrow> 'd list) \<Rightarrow> ('d list \<Rightarrow> chunk list) \<Rightarrow> (string \<Rightarrow> 'v option)
     \<Rightarrow> 'f \<Rightarrow> 'v index_store \<Rightarrow> 'v index_store" where
  "reset_vector_database load_documents split_documents embed_text files st =
     (let documents = load_documents files;
          chunks = split_documents documents;
          st1 = delete_database chunks st;
          documents = load_documents files;
          chunks = split_documents documents
      in add_to_chroma embed_text chunks st1)"

section \<open>Splitting and joining\<close>

lemma str_split_not_Nil: "str_split s \<noteq> []"
  by (induction s) (auto split: list.splits)

lemma str_split_append: "str_split (a @ newline # b) = str_split a @ str_split b"
  by (induction a) (auto split: list.splits simp: str_split_not_Nil)




lemma split_no_newline: "newline \<notin> set p \<Longrightarrow> str_split p = [p]"
  by (induction p) (auto split: list.splits)


text \<open>The substring test is the one by decomposition.\<close>

lemma starts_with_iff: "starts_with s p \<longleftrightarrow> (\<exists>q. s = p @ q)"
  by (induction s p rule: starts_with.induct) auto

lemma str_in_iff: "str_in n s \<longleftrightarrow> (\<exists>p q. s = p @ n @ q)"
proof (induction s)
  case Nil
  show ?case by simp
next
  case (Cons c cs)
  show ?case
  proof
    assume "str_in n (c # cs)"
    then consider "starts_with (c # cs) n" | "str_in n cs" by auto
    then show "\<exists>p q. c # cs = p @ n @ q"
    proof cases
      case 1
      then obtain q where "c # cs = n @ q" by (auto simp: starts_with_iff)
      then have "c # cs = [] @ n @ q" by simp
      then show ?thesis by blast
    next
      case 2
      with Cons obtain p q where "cs = p @ n @ q" by auto
      then have "c # cs = (c # p) @ n @ q" by simp
      then show ?thesis by blast
    qed
  next
    assume "\<exists>p q. c # cs = p @ n @ q"
    then obtain p q where pq: "c # cs = p @ n @ q" by blast
    show "str_in n (c # cs)"
    proof (cases p)
      case Nil
      with pq have "starts_with (c # cs) n" by (auto simp: starts_with_iff)
      then show ?thesis by simp
    next
      case (Cons a p')
      with pq have "cs = p' @ n @ q" by simp
      with Cons.IH have "str_in n cs" by blast
      then show ?thesis by simp
    qed
  qed
qed

section \<open>The slides one call produces\<close>

lemma flushed_not_Nil: "flushed m cur ps \<noteq> []"
  by (induction ps arbitrary: cur) auto

lemma for_paragraphs_flushed:
  "(case for_paragraphs m ttl ps (prs, cur, first) of
      (prs', cur', first') \<Rightarrow> add_content_to_slide prs' 1 ttl cur' first') =
   prs @ slide_with (if first then Some ttl else None) (hd (flushed m cur ps))
       # map (slide_with None) (tl (flushed m cur ps))"
proof (induction ps arbitrary: prs cur first)
  case Nil
  show ?case by (simp add: add_content_to_slide_def slide_with_def)
next
  case (Cons p ps)
  show ?case
  proof (cases "length cur + length p > m")
    case True
    obtain b bs where F: "flushed m p ps = b # bs"
      using flushed_not_Nil by (cases "flushed m p ps") auto
    from True show ?thesis
      using Cons.IH [where prs = "add_content_to_slide prs 1 ttl cur first" and cur = p
                      and first = False]
      by (simp add: F add_content_to_slide_def slide_with_def)
  next
    case False
    then show ?thesis
      using Cons.IH [where prs = prs and first = first
                      and cur = "(if cur \<noteq> [] then cur @ [newline] else cur) @ p"]
      by simp
  qed
qed

lemma add_slide_with_content_budget_flushed:
  "add_slide_with_content_budget m prs ttl content =
   prs @ slide_with (Some (rewrite_title ttl)) (hd (flushed m [] (str_split content)))
       # map (slide_with None) (tl (flushed m [] (str_split content)))"
  using for_paragraphs_flushed
    [where m = m and ttl = "rewrite_title ttl" and ps = "str_split content" and prs = prs
       and cur = "[]" and first = True]
  by (simp add: add_slide_with_content_budget_def)

lemma produced_budget_flushed:
  "produced_budget m prs ttl content =
   slide_with (Some (rewrite_title ttl)) (hd (flushed m [] (str_split content)))
     # map (slide_with None) (tl (flushed m [] (str_split content)))"
  by (simp add: produced_budget_def add_slide_with_content_budget_flushed)

lemma body_slide_with: "body (slide_with t b) = b"
  by (simp add: slide_with_def)

lemma bodies_produced_budget:
  "map body (produced_budget m prs ttl content) = flushed m [] (str_split content)"
proof -
  obtain b bs where F: "flushed m [] (str_split content) = b # bs"
    using flushed_not_Nil by (cases "flushed m [] (str_split content)") auto
  show ?thesis
    by (simp add: produced_budget_flushed F body_slide_with comp_def)
qed

lemma produced_eq: "produced prs ttl content = produced_budget MAX_CHARS_PER_SLIDE prs ttl content"
  by (simp add: produced_def produced_budget_def add_slide_with_content_def)

lemma bodies_produced:
  "map body (produced prs ttl content) = flushed MAX_CHARS_PER_SLIDE [] (str_split content)"
  by (simp add: produced_eq bodies_produced_budget)

lemma add_slide_with_content_produced:
  "add_slide_with_content prs ttl content = prs @ produced prs ttl content"
  by (simp add: produced_def add_slide_with_content_def add_slide_with_content_budget_flushed)

lemma produced_flushed:
  "produced prs ttl content =
   slide_with (Some (rewrite_title ttl)) (hd (flushed MAX_CHARS_PER_SLIDE [] (str_split content)))
     # map (slide_with None) (tl (flushed MAX_CHARS_PER_SLIDE [] (str_split content)))"
  by (simp add: produced_eq produced_budget_flushed)

text \<open>
  No slide body is longer than the budget plus one, unless it is a single line of the
  content.
\<close>

lemma flushed_bound:
  "b \<in> set (flushed m cur ps) \<Longrightarrow> length b \<le> m + 1 \<or> b = cur \<or> b \<in> set ps"
proof (induction ps arbitrary: cur)
  case Nil
  then show ?case by simp
next
  case (Cons p ps)
  show ?case
  proof (cases "length cur + length p > m")
    case True
    with Cons.prems have "b = cur \<or> b \<in> set (flushed m p ps)" by simp
    with Cons.IH [of p] show ?thesis by auto
  next
    case False
    let ?c = "(if cur \<noteq> [] then cur @ [newline] else cur) @ p"
    from False Cons.prems have "b \<in> set (flushed m ?c ps)" by simp
    from Cons.IH [OF this] have "length b \<le> m + 1 \<or> b = ?c \<or> b \<in> set ps" .
    moreover from False have "length ?c \<le> m + 1" by simp
    ultimately show ?thesis by auto
  qed
qed

lemma body_bound:
  "s \<in> set (produced prs ttl content) \<Longrightarrow>
   length (body s) \<le> MAX_CHARS_PER_SLIDE + 1 \<or> body s \<in> set (str_split content)"
proof -
  assume "s \<in> set (produced prs ttl content)"
  then have "body s \<in> set (map body (produced prs ttl content))" by simp
  then have "body s \<in> set (flushed MAX_CHARS_PER_SLIDE [] (str_split content))"
    by (simp only: bodies_produced)
  from flushed_bound [OF this] show ?thesis by auto
qed

section \<open>The budget\<close>

text \<open>
  Claim C1. Every slide the paginator produces has a body of at most
  \<open>MAX_CHARS_PER_SLIDE\<close> characters, unless the body is a single line of the content that
  is longer than the budget by itself. The code compares \<open>len(current_content) +
  len(paragraph)\<close> with the budget and then joins the two with a newline it has not
  counted: two lines of 300 characters each end on one slide, whose body has 601
  characters and is not a single line.
\<close>

theorem two_half_budget_lines_share_a_slide:
  "map body (produced prs ttl (replicate 300 (CHR ''a'') @ newline # replicate 300 (CHR ''b'')))
     = [replicate 300 (CHR ''a'') @ newline # replicate 300 (CHR ''b'')]
   \<and> length (replicate 300 (CHR ''a'') @ newline # replicate 300 (CHR ''b''))
     = MAX_CHARS_PER_SLIDE + 1
   \<and> str_split (replicate 300 (CHR ''a'') @ newline # replicate 300 (CHR ''b''))
     = [replicate 300 (CHR ''a''), replicate 300 (CHR ''b'')]"
proof -
  have a: "str_split (replicate 300 (CHR ''a'')) = [replicate 300 (CHR ''a'')]"
    by (rule split_no_newline) (simp add: newline_def)
  have b: "str_split (replicate 300 (CHR ''b'')) = [replicate 300 (CHR ''b'')]"
    by (rule split_no_newline) (simp add: newline_def)
  have s: "str_split (replicate 300 (CHR ''a'') @ newline # replicate 300 (CHR ''b''))
     = [replicate 300 (CHR ''a''), replicate 300 (CHR ''b'')]"
    by (simp only: str_split_append a b append.simps)
  have f: "flushed MAX_CHARS_PER_SLIDE []
             [replicate 300 (CHR ''a''), replicate 300 (CHR ''b'')]
           = [replicate 300 (CHR ''a'') @ newline # replicate 300 (CHR ''b'')]"
    by (simp add: MAX_CHARS_PER_SLIDE_def)
  show ?thesis
    by (simp only: bodies_produced s f) (simp add: MAX_CHARS_PER_SLIDE_def)
qed

text \<open>
  Claim C3. With a budget of 10 and the lines \<open>hello\<close>, \<open>world\<close> and
  \<open>foobarbaz!\<close> the specification expects three slides. The code puts \<open>hello\<close> and
  \<open>world\<close> on one slide, since 5 + 5 is not more than 10, and produces two slides; the first
  body has 11 characters.
\<close>

theorem spec_example_gives_two_slides:
  "map body (produced_budget 10 prs ttl ''hello\<newline>world\<newline>foobarbaz!'')
     = [''hello\<newline>world'', ''foobarbaz!'']"
  by (simp add: bodies_produced_budget newline_def)

section \<open>Completeness\<close>

lemma nonempty_split_Nil: "filter (\<lambda>l. l \<noteq> []) (str_split []) = []"
  by simp






section \<open>The state machine\<close>

lemma for_paragraphs_spec_step:
  "for_paragraphs m ttl ls (prs @ completed p, accumulator p, first_flag p) =
     (prs @ completed (foldl (spec_step m ttl) p ls),
      accumulator (foldl (spec_step m ttl) p ls),
      first_flag (foldl (spec_step m ttl) p ls))"
proof (induction ls arbitrary: p)
  case Nil
  show ?case by simp
next
  case (Cons l ls)
  let ?q = "spec_step m ttl p l"
  have step: "for_paragraphs m ttl (l # ls) (prs @ completed p, accumulator p, first_flag p)
                = for_paragraphs m ttl ls (prs @ completed ?q, accumulator ?q, first_flag ?q)"
  proof (cases "length (accumulator p) + length l > m")
    case True
    then have "completed ?q = completed p
                 @ [slide_with (if first_flag p then Some ttl else None) (accumulator p)]"
      and "accumulator ?q = l" and "first_flag ?q = False"
      by (simp_all add: spec_step_def)
    with True show ?thesis
      by (simp add: add_content_to_slide_def slide_with_def)
  next
    case False
    then have "completed ?q = completed p" and "first_flag ?q = first_flag p"
      and "accumulator ?q = (if accumulator p \<noteq> [] then accumulator p @ [newline]
                             else accumulator p) @ l"
      by (simp_all add: spec_step_def)
    with False show ?thesis by simp
  qed
  show ?case
    unfolding step foldl_Cons by (rule Cons.IH)
qed

text \<open>
  Claim C4. The paginator takes the lines in order, from an empty accumulator and a
  \<open>first_slide\<close> flag that is true, and handles each line as the specification's state
  machine does: the loop of the code ends in the state \<open>spec_run\<close> computes, and the slides
  \<open>add_slide_with_content\<close> appends are the completed ones followed by the flush of the
  accumulator.
\<close>

theorem paginator_follows_the_state_machine:
  "for_paragraphs m ttl ls (prs, [], True) =
     (prs @ completed (spec_run m ttl ls),
      accumulator (spec_run m ttl ls),
      first_flag (spec_run m ttl ls))
   \<and> add_slide_with_content prs ttl content =
       prs @ completed (spec_run MAX_CHARS_PER_SLIDE (rewrite_title ttl) (str_split content))
           @ [slide_with
                (if first_flag (spec_run MAX_CHARS_PER_SLIDE (rewrite_title ttl) (str_split content))
                 then Some (rewrite_title ttl) else None)
                (accumulator (spec_run MAX_CHARS_PER_SLIDE (rewrite_title ttl) (str_split content)))]"
proof -
  have loop: "for_paragraphs k t xs (prs, [], True) =
     (prs @ completed (spec_run k t xs), accumulator (spec_run k t xs),
      first_flag (spec_run k t xs))" for k t xs
    using for_paragraphs_spec_step [of k t xs prs spec_initial]
    by (simp add: spec_run_def spec_initial_def)
  show ?thesis
    by (simp add: loop add_slide_with_content_def add_slide_with_content_budget_def Let_def
          add_content_to_slide_def slide_with_def)
qed

section \<open>At least one slide\<close>

text \<open>
  Claim C5. For every presentation, title and content the paginator returns the
  presentation with at least one slide appended; for the empty content it appends exactly
  one slide, with the title and an empty body.
\<close>

theorem pagination_yields_a_slide:
  "add_slide_with_content prs ttl content = prs @ produced prs ttl content
   \<and> produced prs ttl content \<noteq> []
   \<and> produced prs ttl [] = [slide_with (Some (rewrite_title ttl)) []]"
  by (simp add: add_slide_with_content_produced produced_flushed)

section \<open>The title\<close>

lemma list_ex_special_cases:
  "list_ex (\<lambda>c. str_in c s) special_cases \<longleftrightarrow>
     str_in ''summary'' s \<or> str_in ''question'' s \<or> str_in ''questions'' s \<or> str_in ''mcq'' s
     \<or> str_in ''fill in the blank'' s \<or> str_in ''fill in the blanks'' s
     \<or> str_in ''case study'' s \<or> str_in ''case studies'' s"
  by (simp add: special_cases_def) blast

text \<open>
  Claim C6. A title whose lowercase form contains one of the trigger substrings is
  rewritten to a canonical label: \<open>Summary:\<close> when it contains \<open>summary\<close>; otherwise
  \<open>Case study:\<close> when it contains \<open>case study\<close> or \<open>case studies\<close>; otherwise \<open>Q&A:\<close>,
  for the triggers that remain (\<open>question\<close>, \<open>questions\<close>, \<open>mcq\<close>, \<open>fill in the blank\<close>,
  \<open>fill in the blanks\<close>). A title that contains none of them is used as it is. Of the slides
  produced for one answer the first carries the title and no other does.
\<close>

theorem title_is_normalized:
  "(str_in ''summary'' (lower ttl) \<longrightarrow> rewrite_title ttl = ''Summary:'')
   \<and> (\<not> str_in ''summary'' (lower ttl)
        \<and> (str_in ''case study'' (lower ttl) \<or> str_in ''case studies'' (lower ttl))
      \<longrightarrow> rewrite_title ttl = ''Case study:'')
   \<and> (\<not> str_in ''summary'' (lower ttl) \<and> \<not> str_in ''case study'' (lower ttl)
        \<and> \<not> str_in ''case studies'' (lower ttl)
        \<and> (str_in ''question'' (lower ttl) \<or> str_in ''questions'' (lower ttl)
             \<or> str_in ''mcq'' (lower ttl) \<or> str_in ''fill in the blank'' (lower ttl)
             \<or> str_in ''fill in the blanks'' (lower ttl))
      \<longrightarrow> rewrite_title ttl = ''Q&A:'')
   \<and> (\<not> (str_in ''summary'' (lower ttl) \<or> str_in ''question'' (lower ttl)
           \<or> str_in ''questions'' (lower ttl) \<or> str_in ''mcq'' (lower ttl)
           \<or> str_in ''fill in the blank'' (lower ttl) \<or> str_in ''fill in the blanks'' (lower ttl)
           \<or> str_in ''case study'' (lower ttl) \<or> str_in ''case studies'' (lower ttl))
      \<longrightarrow> rewrite_title ttl = ttl)
   \<and> title (hd (produced prs ttl content)) = Some (rewrite_title ttl)
   \<and> (\<forall>s \<in> set (tl (produced prs ttl content)). title s = None)"
proof -
  have first: "title (hd (produced prs ttl content)) = Some (rewrite_title ttl)"
    by (simp add: produced_flushed slide_with_def)
  have others: "\<forall>s \<in> set (tl (produced prs ttl content)). title s = None"
    by (auto simp: produced_flushed slide_with_def)
  show ?thesis
    unfolding rewrite_title_def list_ex_special_cases using first others
    by (simp add: rewrite_title_def list_ex_special_cases)
qed

theorem title_is_normalized_witness:
  "rewrite_title ''Chapter Summary'' = ''Summary:''
   \<and> rewrite_title ''Two Case Studies'' = ''Case study:''
   \<and> rewrite_title ''An MCQ quiz'' = ''Q&A:''
   \<and> rewrite_title ''Photosynthesis'' = ''Photosynthesis''
   \<and> map title (produced [] ''Chapter Summary''
         (replicate 400 (CHR ''a'') @ newline # replicate 400 (CHR ''b'')))
       = [Some ''Summary:'', None]"
proof -
  let ?c = "replicate 400 (CHR ''a'') @ newline # replicate 400 (CHR ''b'')"
  have h1: "str_in ''summary'' (lower ''Chapter Summary'')"
    by code_simp
  have h2: "\<not> str_in ''summary'' (lower ''Two Case Studies'')
     \<and> (str_in ''case study'' (lower ''Two Case Studies'')
          \<or> str_in ''case studies'' (lower ''Two Case Studies''))"
    by code_simp
  have h3: "\<not> str_in ''summary'' (lower ''An MCQ quiz'')
     \<and> \<not> str_in ''case study'' (lower ''An MCQ quiz'')
     \<and> \<not> str_in ''case studies'' (lower ''An MCQ quiz'')
     \<and> (str_in ''question'' (lower ''An MCQ quiz'') \<or> str_in ''questions'' (lower ''An MCQ quiz'')
          \<or> str_in ''mcq'' (lower ''An MCQ quiz'') \<or> str_in ''fill in the blank'' (lower ''An MCQ quiz'')
          \<or> str_in ''fill in the blanks'' (lower ''An MCQ quiz''))"
    by code_simp
  have h4: "\<not> (str_in ''summary'' (lower ''Photosynthesis'')
           \<or> str_in ''question'' (lower ''Photosynthesis'')
           \<or> str_in ''questions'' (lower ''Photosynthesis'') \<or> str_in ''mcq'' (lower ''Photosynthesis'')
           \<or> str_in ''fill in the blank'' (lower ''Photosynthesis'')
           \<or> str_in ''fill in the blanks'' (lower ''Photosynthesis'')
           \<or> str_in ''case study'' (lower ''Photosynthesis'')
           \<or> str_in ''case studies'' (lower ''Photosynthesis''))"
    by code_simp
  have r1: "rewrite_title ''Chapter Summary'' = ''Summary:''"
    using title_is_normalized [of "''Chapter Summary''" "[]" ?c] h1 by blast
  have r2: "rewrite_title ''Two Case Studies'' = ''Case study:''"
    using title_is_normalized [of "''Two Case Studies''" "[]" ?c] h2 by blast
  have r3: "rewrite_title ''An MCQ quiz'' = ''Q&A:''"
    using title_is_normalized [of "''An MCQ quiz''" "[]" ?c] h3 by blast
  have r4: "rewrite_title ''Photosynthesis'' = ''Photosynthesis''"
    using title_is_normalized [of "''Photosynthesis''" "[]" ?c] h4 by blast
  have a: "str_split (replicate 400 (CHR ''a'')) = [replicate 400 (CHR ''a'')]"
    by (rule split_no_newline) (simp add: newline_def)
  have b: "str_split (replicate 400 (CHR ''b'')) = [replicate 400 (CHR ''b'')]"
    by (rule split_no_newline) (simp add: newline_def)
  have s: "str_split ?c = [replicate 400 (CHR ''a''), replicate 400 (CHR ''b'')]"
    by (simp only: str_split_append a b append.simps)
  have f: "flushed MAX_CHARS_PER_SLIDE [] (str_split ?c)
             = [replicate 400 (CHR ''a''), replicate 400 (CHR ''b'')]"
    unfolding s by (simp add: MAX_CHARS_PER_SLIDE_def)
  have two: "\<exists>x y. produced [] ''Chapter Summary'' ?c = [x, y]"
    by (simp add: produced_flushed f)
  then obtain x y where P: "produced [] ''Chapter Summary'' ?c = [x, y]" by blast
  from title_is_normalized [of "''Chapter Summary''" "[]" ?c]
  have "title (hd (produced [] ''Chapter Summary'' ?c)) = Some (rewrite_title ''Chapter Summary'')"
    and "\<forall>s \<in> set (tl (produced [] ''Chapter Summary'' ?c)). title s = None"
    by blast+
  then have "map title (produced [] ''Chapter Summary'' ?c) = [Some ''Summary:'', None]"
    by (simp add: P r1)
  with r1 r2 r3 r4 show ?thesis by blast
qed

text \<open>
  Claim C9. The checks have a fixed precedence: a title whose lowercase form contains
  \<open>summary\<close> and also \<open>case study\<close> or \<open>case studies\<close> becomes \<open>Summary:\<close>, and a
  triggered title that contains neither \<open>summary\<close> nor \<open>case study\<close> nor \<open>case studies\<close>
  becomes \<open>Q&A:\<close>; this is the title of the first slide.
\<close>

theorem summary_wins_and_the_rest_is_qa:
  "(str_in ''summary'' (lower ttl)
      \<and> (str_in ''case study'' (lower ttl) \<or> str_in ''case studies'' (lower ttl))
    \<longrightarrow> rewrite_title ttl = ''Summary:''
        \<and> title (hd (produced prs ttl content)) = Some ''Summary:'')
   \<and> ((\<exists>c \<in> set special_cases. str_in c (lower ttl))
      \<and> \<not> str_in ''summary'' (lower ttl)
      \<and> \<not> str_in ''case study'' (lower ttl) \<and> \<not> str_in ''case studies'' (lower ttl)
    \<longrightarrow> rewrite_title ttl = ''Q&A:''
        \<and> title (hd (produced prs ttl content)) = Some ''Q&A:'')"
proof -
  have first: "title (hd (produced prs ttl content)) = Some (rewrite_title ttl)"
    by (simp add: produced_flushed slide_with_def)
  have trig: "(\<exists>c \<in> set special_cases. str_in c (lower ttl))
                = list_ex (\<lambda>c. str_in c (lower ttl)) special_cases"
    by (simp add: list_ex_iff)
  show ?thesis
    unfolding first trig by (auto simp: rewrite_title_def list_ex_special_cases)
qed

theorem summary_wins_and_the_rest_is_qa_witness:
  "rewrite_title ''Summary of the case study'' = ''Summary:''
   \<and> title (hd (produced [] ''Summary of the case study'' ''text'')) = Some ''Summary:''
   \<and> rewrite_title ''Fill in the Blanks'' = ''Q&A:''
   \<and> title (hd (produced [] ''Fill in the Blanks'' ''text'')) = Some ''Q&A:''"
proof -
  have h1: "str_in ''summary'' (lower ''Summary of the case study'')
      \<and> (str_in ''case study'' (lower ''Summary of the case study'')
           \<or> str_in ''case studies'' (lower ''Summary of the case study''))"
    by code_simp
  have h2: "(\<exists>c \<in> set special_cases. str_in c (lower ''Fill in the Blanks''))
      \<and> \<not> str_in ''summary'' (lower ''Fill in the Blanks'')
      \<and> \<not> str_in ''case study'' (lower ''Fill in the Blanks'')
      \<and> \<not> str_in ''case studies'' (lower ''Fill in the Blanks'')"
    by code_simp
  from summary_wins_and_the_rest_is_qa [of "''Summary of the case study''" "[]" "''text''"] h1
  have a: "rewrite_title ''Summary of the case study'' = ''Summary:''
        \<and> title (hd (produced [] ''Summary of the case study'' ''text'')) = Some ''Summary:''"
    by blast
  from summary_wins_and_the_rest_is_qa [of "''Fill in the Blanks''" "[]" "''text''"] h2
  have b: "rewrite_title ''Fill in the Blanks'' = ''Q&A:''
        \<and> title (hd (produced [] ''Fill in the Blanks'' ''text'')) = Some ''Q&A:''"
    by blast
  from a b show ?thesis by blast
qed

section \<open>The persisted deck\<close>

lemma update_presentation_Some:
  "update_presentation (Some old) ttl content = Some (old @ produced old ttl content)"
  by (simp add: update_presentation_def add_slide_with_content_produced)

lemma update_presentation_None:
  "update_presentation None ttl content = Some (produced [] ttl content)"
  by (simp add: update_presentation_def add_slide_with_content_produced)

lemma produced_not_Nil: "produced prs ttl content \<noteq> []"
  by (simp add: produced_flushed)

lemma update_all_appends:
  "\<exists>rest. update_all (Some old) answers = Some (old @ rest) \<and> (rest = []) = (answers = [])"
proof (induction answers arbitrary: old)
  case Nil
  show ?case by (simp add: update_all_def)
next
  case (Cons a answers)
  obtain ttl content where a: "a = (ttl, content)" by (cases a)
  from Cons.IH [of "old @ produced old ttl content"]
  obtain rest where
    "update_all (Some (old @ produced old ttl content)) answers
       = Some ((old @ produced old ttl content) @ rest)"
    by blast
  then have "update_all (Some old) (a # answers) = Some (old @ (produced old ttl content @ rest))"
    by (simp add: update_all_def a update_presentation_Some)
  moreover have "produced old ttl content @ rest \<noteq> []"
    by (simp add: produced_not_Nil)
  ultimately show ?case by blast
qed

text \<open>
  Claim C8. Appending an answer to the persisted deck keeps every slide stored before,
  unchanged and in its order, and adds the new slides at the end; there is at least one
  new slide. Over a session, whatever the answers, the deck is the deck it started from
  followed by new slides, and it has grown as soon as there was an answer.
\<close>

theorem deck_is_append_only:
  "update_presentation (Some old) ttl content = Some (old @ produced old ttl content)
   \<and> update_presentation None ttl content = Some (produced [] ttl content)
   \<and> produced old ttl content \<noteq> []
   \<and> (\<exists>rest. update_all (Some old) answers = Some (old @ rest)
               \<and> (rest = []) = (answers = []))"
  using update_all_appends [of old answers]
  by (simp add: update_presentation_Some update_presentation_None produced_not_Nil)

section \<open>Retrieval\<close>

lemma rag_template: "\<exists>t. map_of PROMPT_TEMPLATES ''rag'' = Some t"
  by (simp add: PROMPT_TEMPLATES_def)

text \<open>
  Claim C10. Whatever the query text and the prompt type, \<open>query_database\<close> makes one
  request to the similarity search, for \<open>k = 5\<close> results; it has no argument for \<open>k\<close>.
  The answer it gives is built from the documents the store returns for this request: for a
  known prompt type it is the model's reply to the prompt formatted with their texts, for
  an unknown one it is the \<open>KeyError\<close>, raised after the request. What the store would
  return for any other request does not matter.
\<close>

theorem retrieval_asks_for_five:
  "searches (fst (query_database db fmt llm s query_text prompt_type))
     = searches s @ [(query_text, 5)]
   \<and> snd (query_database db fmt llm s query_text prompt_type)
     = (case map_of PROMPT_TEMPLATES prompt_type of
          None \<Rightarrow> Inl (KeyError prompt_type)
        | Some template \<Rightarrow>
            Inr (llm (fmt template
                   (str_join ''\<newline>\<newline>---\<newline>\<newline>''
                      (map (\<lambda>(doc, score). page_content doc) (db query_text 5)))
                   query_text)))
   \<and> (db query_text 5 = db' query_text 5
      \<longrightarrow> query_database db fmt llm s query_text prompt_type
          = query_database db' fmt llm s query_text prompt_type)"
  by (simp add: query_database_def Let_def split: option.split)

theorem retrieval_asks_for_five_witness:
  "snd (query_database (\<lambda>q k. replicate k (\<lparr>page_content = ''x'', doc_id = None\<rparr>, 0 :: nat))
       (\<lambda>t c q. c) (\<lambda>p. p) \<lparr>pptx_file = None, searches = []\<rparr> ''why'' ''rag'')
   = Inr ''x\<newline>\<newline>---\<newline>\<newline>x\<newline>\<newline>---\<newline>\<newline>x\<newline>\<newline>---\<newline>\<newline>x\<newline>\<newline>---\<newline>\<newline>x''
   \<and> query_database (\<lambda>q k. replicate k (\<lparr>page_content = ''x'', doc_id = None\<rparr>, 0 :: nat))
       (\<lambda>t c q. c) (\<lambda>p. p) \<lparr>pptx_file = None, searches = []\<rparr> ''why'' ''rag''
   = query_database (\<lambda>q k. replicate 5 (\<lparr>page_content = ''x'', doc_id = None\<rparr>, 0 :: nat))
       (\<lambda>t c q. c) (\<lambda>p. p) \<lparr>pptx_file = None, searches = []\<rparr> ''why'' ''rag''"
proof -
  let ?dk = "\<lambda>(q :: string) k. replicate k (\<lparr>page_content = ''x'', doc_id = None\<rparr>, 0 :: nat)"
  let ?dfive = "\<lambda>(q :: string) (k :: nat). replicate 5 (\<lparr>page_content = ''x'', doc_id = None\<rparr>, 0 :: nat)"
  let ?s = "\<lparr>pptx_file = None, searches = []\<rparr>"
  note inst = retrieval_asks_for_five
    [of ?dk "\<lambda>t c q. c" "\<lambda>p. p" ?s "''why''" "''rag''" ?dfive]
  obtain t where t: "map_of PROMPT_TEMPLATES ''rag'' = Some t"
    using rag_template by blast
  have five: "replicate 5 x = [x, x, x, x, x]" for x :: "document \<times> nat"
    by (simp add: eval_nat_numeral)
  have h: "?dk ''why'' 5 = ?dfive ''why'' 5" by simp
  from inst [THEN conjunct2, THEN conjunct1]
  have "snd (query_database ?dk (\<lambda>t c q. c) (\<lambda>p. p) ?s ''why'' ''rag'')
      = Inr (str_join ''\<newline>\<newline>---\<newline>\<newline>''
               (map (\<lambda>(doc, score). page_content doc) (?dk ''why'' 5)))"
    by (simp only: t option.case) 
  then have r: "snd (query_database ?dk (\<lambda>t c q. c) (\<lambda>p. p) ?s ''why'' ''rag'')
      = Inr ''x\<newline>\<newline>---\<newline>\<newline>x\<newline>\<newline>---\<newline>\<newline>x\<newline>\<newline>---\<newline>\<newline>x\<newline>\<newline>---\<newline>\<newline>x''"
    by (simp add: five)
  from inst [THEN conjunct2, THEN conjunct2] h
  have "query_database ?dk (\<lambda>t c q. c) (\<lambda>p. p) ?s ''why'' ''rag''
                 = query_database ?dfive (\<lambda>t c q. c) (\<lambda>p. p) ?s ''why'' ''rag''"
    by blast
  with r show ?thesis by blast
qed

section \<open>Resetting the vector database\<close>

lemma entries_sync_chunk:
  "entries st = entries st' \<Longrightarrow> entries (sync_chunk e st c) = entries (sync_chunk e st' c)"
  by (simp add: sync_chunk_def split: option.split)

lemma entries_foldl_sync_chunk:
  "entries st = entries st' \<Longrightarrow>
   entries (foldl (sync_chunk e) st cs) = entries (foldl (sync_chunk e) st' cs)"
proof (induction cs arbitrary: st st')
  case Nil
  then show ?case by simp
next
  case (Cons c cs)
  from Cons.prems have "entries (sync_chunk e st c) = entries (sync_chunk e st' c)"
    by (rule entries_sync_chunk)
  from Cons.IH [OF this] show ?case by simp
qed

lemma calls_sync_chunk:
  "calls (sync_chunk e st c) =
   calls st @ (if e (chunk_text c) \<noteq> None then [Upsert (chunk_id c)] else [])"
  by (cases "e (chunk_text c)") (simp_all add: sync_chunk_def)

lemma calls_foldl_sync_chunk:
  "calls (foldl (sync_chunk e) st cs) =
   calls st @ map (\<lambda>c. Upsert (chunk_id c)) (filter (\<lambda>c. e (chunk_text c) \<noteq> None) cs)"
proof (induction cs arbitrary: st)
  case Nil
  show ?case by simp
next
  case (Cons c cs)
  have "calls (foldl (sync_chunk e) st (c # cs))
          = calls (sync_chunk e st c)
            @ map (\<lambda>c. Upsert (chunk_id c)) (filter (\<lambda>c. e (chunk_text c) \<noteq> None) cs)"
    using Cons.IH [of "sync_chunk e st c"] by simp
  then show ?case
    by (simp only: calls_sync_chunk) simp
qed

lemma entries_add_to_chroma:
  assumes "entries st = entries st'"
  shows "entries (add_to_chroma e cs st) = entries (add_to_chroma e cs st')"
proof -
  have "entries (st\<lparr>calls := calls st @ [Exists_query]\<rparr>)
          = entries (st'\<lparr>calls := calls st' @ [Exists_query]\<rparr>)"
    using assms by simp
  from entries_foldl_sync_chunk [OF this] show ?thesis
    by (simp add: add_to_chroma_def Let_def assms)
qed

lemma calls_add_to_chroma_empty:
  "entries st = [] \<Longrightarrow>
   calls (add_to_chroma e cs st) =
   calls st @ [Exists_query]
   @ map (\<lambda>c. Upsert (chunk_id c)) (filter (\<lambda>c. e (chunk_text c) \<noteq> None) cs)"
  by (simp add: add_to_chroma_def Let_def calls_foldl_sync_chunk)

text \<open>
  A store that holds an entry of the corpus and the stale entry of a removed document:
  after the reset it holds the chunks of the corpus, embedded anew, and nothing else.
\<close>

lemma reset_removes_stale_ids:
  "entries (reset_vector_database (\<lambda>files. files) (\<lambda>documents. documents) Some
         [\<lparr>chunk_id = ''a.pdf:0:0'', chunk_text = ''x''\<rparr>,
          \<lparr>chunk_id = ''a.pdf:0:1'', chunk_text = ''y''\<rparr>]
         \<lparr>entries = [(''a.pdf:0:0'', ''old''), (''gone.pdf:0:0'', ''z'')], calls = []\<rparr>)
     = [(''a.pdf:0:0'', ''x''), (''a.pdf:0:1'', ''y'')]"
  by (simp add: reset_vector_database_def delete_database_def add_to_chroma_def sync_chunk_def)

text \<open>
  Claim C7. \<open>reset_vector_database\<close> deletes every id the index store holds and then
  makes exactly one sync pass over the corpus: one deletion, one query for the ids present
  and one upsert for each chunk whose embedding succeeds (the loader and the splitter run
  twice, the sync once). The entries it leaves are those of a single sync, as
  \<open>update_vector_database\<close> does it, on an empty store.
\<close>

theorem reset_is_delete_then_one_sync:
  "entries (delete_database (split_documents (load_documents files)) st) = []
   \<and> calls (reset_vector_database load_documents split_documents e files st) =
       calls st
       @ [Delete (map fst (entries st))]
       @ [Exists_query]
       @ map (\<lambda>c. Upsert (chunk_id c))
           (filter (\<lambda>c. e (chunk_text c) \<noteq> None) (split_documents (load_documents files)))
   \<and> entries (reset_vector_database load_documents split_documents e files st)
       = entries (update_vector_database load_documents split_documents e files empty_store)"
proof (intro conjI)
  show d: "entries (delete_database (split_documents (load_documents files)) st) = []"
    by (simp add: delete_database_def)
  show "calls (reset_vector_database load_documents split_documents e files st) =
       calls st
       @ [Delete (map fst (entries st))]
       @ [Exists_query]
       @ map (\<lambda>c. Upsert (chunk_id c))
           (filter (\<lambda>c. e (chunk_text c) \<noteq> None) (split_documents (load_documents files)))"
    unfolding reset_vector_database_def Let_def
    by (simp add: calls_add_to_chroma_empty [OF d]) (simp add: delete_database_def)
  show "entries (reset_vector_database load_documents split_documents e files st)
       = entries (update_vector_database load_documents split_documents e files empty_store)"
    unfolding reset_vector_database_def update_vector_database_def Let_def
    by (rule entries_add_to_chroma) (simp add: d empty_store_def)
qed

end
